theory Spec2Isabelle
  imports Complex_Main
begin

section \<open>The EDR route handlers (edr\_publisher/api/edr\_routes.py)\<close>

text \<open>
  Python exceptions are values. The handlers distinguish three kinds: \<open>ValueError\<close>
  (caught around \<open>parse_coordinates\<close>), \<open>HTTPException\<close> (re-raised by the outer
  \<open>except HTTPException: raise\<close>) and every other \<open>Exception\<close> (turned into a 500).
\<close>

datatype exn =
    ValueError string
  | HTTPException nat string
  | OtherException string

datatype 'a outcome = Return 'a | Raise exn

text \<open>
  The \<open>detail\<close> of an \<open>HTTPException\<close> raised by a handler. Each constructor stands for
  one f-string of the source and carries the values interpolated into it.
\<close>

datatype detail =
    CollectionNotFound string
  | InvalidCoordinates exn
  | InvalidDatetime exn
  | ParameterNotAvailable "string option" "string list"
  | UnsupportedFormat string
  | QueryExecutionFailed
  | Verbatim string

datatype 'r response = JSONResponse 'r | HTTPError nat detail

text \<open>
  The dictionary returned by \<open>get_collection_metadata\<close>, as far as the query handlers
  read it: \<open>metadata["id"]\<close> and the keys of \<open>metadata["parameter_names"]\<close>, in order.
\<close>

record metadata =
  md_id :: string
  md_parameter_names :: "string list"

text \<open>
  The class \<open>ZarrDataAccessor\<close> is imported from \<open>edr_publisher/data/zarr_accessor.py\<close>;
  the handlers only call it. It is a parameter of the model: one field per method the handlers
  call, each returning a value or raising. The pair unpacking \<open>lon, lat = ...\<close> sits inside
  the same \<open>try\<close> as the call of \<open>parse_coordinates\<close>, so a failure of it is the
  \<open>ValueError\<close> outcome of that field.
\<close>

record ('c, 'd, 'r) accessor =
  get_collection_metadata :: "metadata outcome"
  parse_coordinates :: "string \<Rightarrow> string \<Rightarrow> 'c outcome"
  parse_datetime :: "string option \<Rightarrow> 'd outcome"
  query_position :: "'c \<Rightarrow> 'd \<Rightarrow> string option \<Rightarrow> 'r outcome"
  query_area :: "'c \<Rightarrow> 'd \<Rightarrow> string option \<Rightarrow> 'r outcome"

text \<open>The calls a handler makes on the accessor, recorded in the order they happen.\<close>

datatype ('c, 'd) call =
    GetCollectionMetadata
  | ParseCoordinates string string
  | ParseDatetime "string option"
  | QueryPosition 'c 'd "string option"
  | QueryArea 'c 'd "string option"

fun is_data_query :: "('c, 'd) call \<Rightarrow> bool" where
  "is_data_query (QueryPosition _ _ _) = True"
| "is_data_query (QueryArea _ _ _) = True"
| "is_data_query _ = False"

text \<open>The query parameters of a position or area request, with FastAPI's defaults.\<close>

record request =
  collection_id :: string
  coords :: string
  datetime :: "string option"
  parameter_name :: "string option"
  f :: string
  crs :: "string option"

text \<open>
  \<open>str.upper()\<close> on ASCII text: the 26 lower-case letters are mapped to upper case, every
  other character is kept.
\<close>

definition upper_char :: "char \<Rightarrow> char" where
  "upper_char c =
     (case map_of (zip ''abcdefghijklmnopqrstuvwxyz'' ''ABCDEFGHIJKLMNOPQRSTUVWXYZ'') c of
        Some u \<Rightarrow> u
      | None \<Rightarrow> c)"

definition upper :: "string \<Rightarrow> string" where
  "upper s = map upper_char s"

text \<open>Python's truth value of an \<open>Optional[str]\<close>: \<open>None\<close> and the empty string are false.\<close>

fun truthy :: "string option \<Rightarrow> bool" where
  "truthy None = False"
| "truthy (Some s) = (s \<noteq> [])"

text \<open>
  \<open>parameter_name and parameter_name not in metadata["parameter_names"]\<close>
\<close>

definition parameter_unavailable :: "string option \<Rightarrow> metadata \<Rightarrow> bool" where
  "parameter_unavailable pn md =
     (truthy pn \<and> (case pn of None \<Rightarrow> False | Some p \<Rightarrow> p \<notin> set (md_parameter_names md)))"

text \<open>
  The two outer handlers of a query endpoint: \<open>except HTTPException: raise\<close> and
  \<open>except Exception\<close>, which logs and raises a 500.
\<close>

fun outer_except :: "exn \<Rightarrow> 'r response" where
  "outer_except (HTTPException code d) = HTTPError code (Verbatim d)"
| "outer_except _ = HTTPError 500 QueryExecutionFailed"

text \<open>The body of the inner \<open>try\<close> around \<open>parse_coordinates\<close>: only \<open>ValueError\<close> is caught.\<close>

fun coords_except :: "exn \<Rightarrow> 'r response" where
  "coords_except (ValueError m) = HTTPError 400 (InvalidCoordinates (ValueError m))"
| "coords_except e = outer_except e"

text \<open>The last step of both handlers: the format switch on \<open>f.upper()\<close>.\<close>

definition format_result :: "string \<Rightarrow> 'r \<Rightarrow> 'r response" where
  "format_result fmt result =
     (if upper fmt = ''GEOJSON'' then JSONResponse result
      else HTTPError 400 (UnsupportedFormat fmt))"

definition position_query ::
  "('c, 'd, 'r) accessor \<Rightarrow> request \<Rightarrow> 'r response \<times> ('c, 'd) call list" where
  "position_query acc rq =
     (case get_collection_metadata acc of
        Raise e \<Rightarrow> (outer_except e, [GetCollectionMetadata])
      | Return md \<Rightarrow>
          if collection_id rq \<noteq> md_id md
          then (HTTPError 404 (CollectionNotFound (collection_id rq)), [GetCollectionMetadata])
          else
            (case parse_coordinates acc (coords rq) ''position'' of
               Raise e \<Rightarrow>
                 (coords_except e,
                  [GetCollectionMetadata, ParseCoordinates (coords rq) ''position''])
             | Return c \<Rightarrow>
                 (case parse_datetime acc (datetime rq) of
                    Raise e \<Rightarrow>
                      (HTTPError 400 (InvalidDatetime e),
                       [GetCollectionMetadata, ParseCoordinates (coords rq) ''position'',
                        ParseDatetime (datetime rq)])
                  | Return dts \<Rightarrow>
                      if parameter_unavailable (parameter_name rq) md
                      then (HTTPError 400
                              (ParameterNotAvailable (parameter_name rq)
                                 (md_parameter_names md)),
                            [GetCollectionMetadata, ParseCoordinates (coords rq) ''position'',
                             ParseDatetime (datetime rq)])
                      else
                        (case query_position acc c dts (parameter_name rq) of
                           Raise e \<Rightarrow>
                             (outer_except e,
                              [GetCollectionMetadata, ParseCoordinates (coords rq) ''position'',
                               ParseDatetime (datetime rq),
                               QueryPosition c dts (parameter_name rq)])
                         | Return result \<Rightarrow>
                             (format_result (f rq) result,
                              [GetCollectionMetadata, ParseCoordinates (coords rq) ''position'',
                               ParseDatetime (datetime rq),
                               QueryPosition c dts (parameter_name rq)])))))"

definition area_query ::
  "('c, 'd, 'r) accessor \<Rightarrow> request \<Rightarrow> 'r response \<times> ('c, 'd) call list" where
  "area_query acc rq =
     (case get_collection_metadata acc of
        Raise e \<Rightarrow> (outer_except e, [GetCollectionMetadata])
      | Return md \<Rightarrow>
          if collection_id rq \<noteq> md_id md
          then (HTTPError 404 (CollectionNotFound (collection_id rq)), [GetCollectionMetadata])
          else
            (case parse_coordinates acc (coords rq) ''area'' of
               Raise e \<Rightarrow>
                 (coords_except e,
                  [GetCollectionMetadata, ParseCoordinates (coords rq) ''area''])
             | Return polygon_coords \<Rightarrow>
                 (case parse_datetime acc (datetime rq) of
                    Raise e \<Rightarrow>
                      (HTTPError 400 (InvalidDatetime e),
                       [GetCollectionMetadata, ParseCoordinates (coords rq) ''area'',
                        ParseDatetime (datetime rq)])
                  | Return dts \<Rightarrow>
                      if parameter_unavailable (parameter_name rq) md
                      then (HTTPError 400
                              (ParameterNotAvailable (parameter_name rq)
                                 (md_parameter_names md)),
                            [GetCollectionMetadata, ParseCoordinates (coords rq) ''area'',
                             ParseDatetime (datetime rq)])
                      else
                        (case query_area acc polygon_coords dts (parameter_name rq) of
                           Raise e \<Rightarrow>
                             (outer_except e,
                              [GetCollectionMetadata, ParseCoordinates (coords rq) ''area'',
                               ParseDatetime (datetime rq),
                               QueryArea polygon_coords dts (parameter_name rq)])
                         | Return result \<Rightarrow>
                             (format_result (f rq) result,
                              [GetCollectionMetadata, ParseCoordinates (coords rq) ''area'',
                               ParseDatetime (datetime rq),
                               QueryArea polygon_coords dts (parameter_name rq)])))))"


definition is_error :: "'r response \<Rightarrow> bool" where
  "is_error r = (case r of JSONResponse _ \<Rightarrow> False | HTTPError _ _ \<Rightarrow> True)"

text \<open>
  A test double for the accessor: a collection \<open>wave_data\<close> with two parameters, a
  coordinate parser that raises \<open>ValueError\<close> on one text and another exception on the
  empty text, and a datetime parser that raises on one text.
\<close>

definition stub_accessor :: "(string, string option, string) accessor" where
  "stub_accessor =
     \<lparr> get_collection_metadata =
         Return \<lparr> md_id = ''wave_data'', md_parameter_names = [''swh'', ''perpw''] \<rparr>,
       parse_coordinates =
         (\<lambda>txt kind. if txt = ''garbage'' then Raise (ValueError ''unsupported coordinate text'')
                      else if txt = [] then Raise (OtherException ''index out of range'')
                      else Return txt),
       parse_datetime =
         (\<lambda>dt. if dt = Some ''yesterday'' then Raise (OtherException ''unknown datetime text'')
                 else Return dt),
       query_position = (\<lambda>c d p. Return ''position features''),
       query_area = (\<lambda>c d p. Return ''area features'') \<rparr>"

definition request_default :: request where
  "request_default =
     \<lparr> collection_id = ''wave_data'', coords = ''POINT(-60.0 45.0)'', datetime = None,
       parameter_name = None, f = ''GeoJSON'', crs = Some ''CRS84'' \<rparr>"


section \<open>Dataset discovery (edr\_publisher/config.py)\<close>

text \<open>
  One \<open>*.zarr\<close> entry of the data directory, as \<open>get_available_datasets\<close> sees it: its
  stem, the state of the sidecar \<open><stem>_edr_metadata.json\<close> and the modification time of
  the store. \<open>NoSidecar\<close>: the sidecar does not exist. \<open>Unreadable\<close>: it exists but the
  body of the \<open>try\<close> raises (the file cannot be opened or is not JSON), which the source
  logs and skips. \<open>Loaded i\<close>: the JSON object was loaded and \<open>i\<close> is its \<open>"id"\<close> entry,
  if it has one.
\<close>

datatype sidecar = NoSidecar | Unreadable | Loaded "string option"

record zarr_store =
  stem :: string
  sidecar :: sidecar
  st_mtime :: real

text \<open>
  The dictionary built for a discovered dataset. The entries \<open>metadata\<close> (the loaded JSON)
  and \<open>modified_iso\<close> (a rendering of \<open>modified\<close>) are not read by the selection.
\<close>

record dataset =
  ds_id :: string
  ds_path :: string
  ds_metadata_path :: string
  ds_modified :: real

record edr_config =
  active_collection :: "string option"

text \<open>The body of the loop over \<open>data_dir.glob("*.zarr")\<close>.\<close>

definition discover :: "zarr_store \<Rightarrow> dataset option" where
  "discover z =
     (case sidecar z of
        NoSidecar \<Rightarrow> None
      | Unreadable \<Rightarrow> None
      | Loaded i \<Rightarrow>
          Some \<lparr> ds_id = (case i of Some x \<Rightarrow> x | None \<Rightarrow> stem z),
                 ds_path = stem z @ ''.zarr'',
                 ds_metadata_path = stem z @ ''_edr_metadata.json'',
                 ds_modified = st_mtime z \<rparr>)"

text \<open>
  \<open>list.sort(key=..., reverse=True)\<close>: descending, and stable (elements with equal keys
  keep their order).
\<close>

definition sort_reverse :: "('a \<Rightarrow> real) \<Rightarrow> 'a list \<Rightarrow> 'a list" where
  "sort_reverse key xs = rev (sort_key key (rev xs))"

text \<open>The data directory is the list of its \<open>*.zarr\<close> entries in the order \<open>glob\<close> yields them.\<close>

definition get_available_datasets :: "zarr_store list \<Rightarrow> dataset list" where
  "get_available_datasets data_dir = sort_reverse ds_modified (List.map_filter discover data_dir)"

definition get_active_dataset :: "edr_config \<Rightarrow> zarr_store list \<Rightarrow> dataset option" where
  "get_active_dataset cfg data_dir =
     (case get_available_datasets data_dir of
        [] \<Rightarrow> None
      | latest # rest \<Rightarrow>
          if truthy (active_collection cfg) \<and> active_collection cfg \<noteq> Some ''latest''
          then (case find (\<lambda>d. Some (ds_id d) = active_collection cfg) (latest # rest) of
                  Some d \<Rightarrow> Some d
                | None \<Rightarrow> Some latest)
          else Some latest)"

definition example_data_dir :: "zarr_store list" where
  "example_data_dir =
     [\<lparr> stem = ''gfs_wave_20240625'', sidecar = Loaded (Some ''gfs_wave_20240625''),
        st_mtime = 100 \<rparr>,
      \<lparr> stem = ''wave_data'', sidecar = Loaded None, st_mtime = 200 \<rparr>,
      \<lparr> stem = ''partial'', sidecar = NoSidecar, st_mtime = 300 \<rparr>]"


section \<open>The conversion pipeline (scripts/data\_pipeline/convert\_to\_zarr.py, scripts/convert\_to\_zarr.py)\<close>










text \<open>
  A scalar as the store holds it: a finite number or one of the non-finite values of the
  floating-point format.
\<close>

datatype scalar = Finite real | NaN | PosInf | NegInf

text \<open>
  \<open>optimize_zarr_encoding\<close> of \<open>scripts/convert_to_zarr.py\<close>: the fill value declared for
  each data variable. \<open>var_FillValue\<close> is the attribute \<open>_FillValue\<close> when the variable has one
  that is not \<open>None\<close>.
\<close>

record data_var =
  var_name :: string
  var_dtype :: string
  var_FillValue :: "scalar option"

definition optimize_zarr_encoding :: "data_var list \<Rightarrow> (string \<times> scalar option) list" where
  "optimize_zarr_encoding vars =
     map (\<lambda>var. (var_name var,
                  (case var_FillValue var of
                     Some v \<Rightarrow> Some v
                   | None \<Rightarrow>
                       if var_dtype var \<in> set [''float32'', ''float64''] then Some NaN else None)))
       vars"


section \<open>The query core behind the accessor\<close>

text \<open>
  The handlers call \<open>ZarrDataAccessor\<close> of \<open>edr_publisher/data/zarr_accessor.py\<close>, a
  module outside the code embedded above. The definitions of this section follow the
  specification of the Dataset Catalog, the Query Engine and the Result Assembler.
\<close>

text \<open>
  Modelled from the spec: the error taxonomy of the query core (section 7), raised by the
  missing module \<open>zarr_accessor.py\<close>.
\<close>

datatype query_error =
  MalformedGeometry | MalformedDateTime | OutOfBounds | FieldNotFound | StoreUnavailable

text \<open>
  Modelled from the spec: the range test of the Dataset Catalog in the missing
  \<open>zarr_accessor.py\<close>. A target lies in the range of a monotonic axis when it lies
  between its first and its last value; no extrapolation.
\<close>

definition axis_covers :: "'a::linordered_idom list \<Rightarrow> 'a \<Rightarrow> bool" where
  "axis_covers axis target =
     (axis \<noteq> [] \<and> min (hd axis) (last axis) \<le> target \<and> target \<le> max (hd axis) (last axis))"

text \<open>
  Modelled from the spec: the binary search of the Dataset Catalog in the missing
  \<open>zarr_accessor.py\<close> ("binary search on the monotonic axis arrays, O(log n) per axis").
  It returns the first index in \<open>[lo, hi)\<close> that does not precede the target, halving the
  interval at every step.
\<close>

function partition_point :: "(nat \<Rightarrow> bool) \<Rightarrow> nat \<Rightarrow> nat \<Rightarrow> nat" where
  "partition_point precedes lo hi =
     (if lo < hi
      then (let mid = (lo + hi) div 2
            in if precedes mid then partition_point precedes (mid + 1) hi
               else partition_point precedes lo mid)
      else lo)"
  by pat_completeness auto
termination
  by (relation "measure (\<lambda>(precedes, lo, hi). hi - lo)") auto

declare partition_point.simps [simp del]

text \<open>
  Modelled from the spec: nearest-point resolution of the Dataset Catalog in the missing
  \<open>zarr_accessor.py\<close>. It fails with \<open>OutOfBounds\<close> outside the axis range; inside, the
  binary search finds the two neighbours of the target (on an ascending or a descending axis)
  and the nearer one is returned, the lower index on an exact midpoint.
\<close>

definition nearest_index :: "'a::linordered_idom list \<Rightarrow> 'a \<Rightarrow> query_error + nat" where
  "nearest_index axis target =
     (if \<not> axis_covers axis target
      then Inl OutOfBounds
      else
        (let ascending = (hd axis \<le> last axis);
             i = partition_point
                   (\<lambda>k. if ascending then axis ! k < target else target < axis ! k)
                   0 (length axis)
         in if i = 0 then Inr 0
            else if i = length axis then Inr (length axis - 1)
            else if \<bar>axis ! (i - 1) - target\<bar> \<le> \<bar>axis ! i - target\<bar> then Inr (i - 1)
            else Inr i))"

text \<open>
  Modelled from the spec: the Dataset Descriptor that the missing \<open>zarr_accessor.py\<close> reads
  from the store (sections 3 and 6): the field list with the declared fill value of each
  field, the three coordinate axes, and the stored scalars addressed by field and by time,
  latitude and longitude index. Chunk boundaries are invisible to the caller and are not
  part of the model.
\<close>

record field_descriptor =
  field_name :: string
  fill_value :: "scalar option"

text \<open>
  Modelled from the spec: the store handle of the missing \<open>zarr_accessor.py\<close>, see the
  Dataset Descriptor above.
\<close>

record store =
  store_fields :: "field_descriptor list"
  latitude :: "real list"
  longitude :: "real list"
  time_axis :: "int list"
  payload :: "string \<Rightarrow> nat \<Rightarrow> nat \<Rightarrow> nat \<Rightarrow> scalar"

text \<open>
  Modelled from the spec: the declared fill value per field of the Dataset Descriptor
  (section 6), read by the missing \<open>zarr_accessor.py\<close> from the encoding the conversion
  wrote.
\<close>

definition declared_fields :: "(string \<times> scalar option) list \<Rightarrow> field_descriptor list" where
  "declared_fields encoding = map (\<lambda>(n, fv). \<lparr> field_name = n, fill_value = fv \<rparr>) encoding"














text \<open>
  A store of three latitudes, three longitudes and two time steps. Its fields are declared by
  the encoding of two \<open>float32\<close> variables, one of them with the sentinel \<open>-9999\<close>; the
  value \<open>2.5\<close> is planted at one cell of the second time step.
\<close>

definition example_store :: store where
  "example_store =
     \<lparr> store_fields =
         declared_fields (optimize_zarr_encoding
           [\<lparr> var_name = ''swh'', var_dtype = ''float32'', var_FillValue = None \<rparr>,
            \<lparr> var_name = ''perpw'', var_dtype = ''float32'',
              var_FillValue = Some (Finite (- 9999)) \<rparr>]),
       latitude = [40, 45, 50],
       longitude = [- 65, - 60, - 55],
       time_axis = [0, 10800],
       payload =
         (\<lambda>n ti yi xi.
            if n = ''swh'' then (if ti = 1 \<and> yi = 1 \<and> xi = 1 then Finite 2.5 else NaN)
            else if ti = 0 then Finite (- 9999) else Finite 0) \<rparr>"


section \<open>Properties of the route handlers\<close>

lemma is_error_outer_except [simp]: "is_error (outer_except e)"
  by (cases e) (simp_all add: is_error_def)

lemma is_error_coords_except [simp]: "is_error (coords_except e)"
  by (cases e) (simp_all add: is_error_def)

lemma is_error_HTTPError [simp]: "is_error (HTTPError code d)"
  by (simp add: is_error_def)

lemma is_error_JSONResponse [simp]: "\<not> is_error (JSONResponse r)"
  by (simp add: is_error_def)

lemma stub_metadata:
  "get_collection_metadata stub_accessor =
     Return \<lparr> md_id = ''wave_data'', md_parameter_names = [''swh'', ''perpw''] \<rparr>"
  by (simp add: stub_accessor_def)


text \<open>
  Claim C3, as the handlers implement it. Let a position or area request carry a non-empty
  \<open>parameter-name\<close> that is not among the parameter names of the collection metadata. Then
  the handler fails and never calls \<open>query_position\<close> or \<open>query_area\<close>. When the
  collection id is the served one and the coordinates and the datetime parse, the failure is
  the HTTP 400 "Parameter ... not available". (A wrong collection id or a parse failure is
  reported first, and an empty \<open>parameter-name\<close> counts as no parameter.)
\<close>

theorem unknown_parameter_rejected:
  assumes "parameter_name rq = Some p" and "p \<noteq> []"
    and "case get_collection_metadata acc of
           Return md \<Rightarrow> p \<notin> set (md_parameter_names md)
         | Raise e \<Rightarrow> True"
  shows "is_error (fst (position_query acc rq)) \<and>
         \<not> list_ex is_data_query (snd (position_query acc rq)) \<and>
         is_error (fst (area_query acc rq)) \<and>
         \<not> list_ex is_data_query (snd (area_query acc rq)) \<and>
         (\<forall>md c d. get_collection_metadata acc = Return md \<and> collection_id rq = md_id md \<and>
            parse_coordinates acc (coords rq) ''position'' = Return c \<and>
            parse_datetime acc (datetime rq) = Return d \<longrightarrow>
            fst (position_query acc rq) =
              HTTPError 400 (ParameterNotAvailable (Some p) (md_parameter_names md))) \<and>
         (\<forall>md c d. get_collection_metadata acc = Return md \<and> collection_id rq = md_id md \<and>
            parse_coordinates acc (coords rq) ''area'' = Return c \<and>
            parse_datetime acc (datetime rq) = Return d \<longrightarrow>
            fst (area_query acc rq) =
              HTTPError 400 (ParameterNotAvailable (Some p) (md_parameter_names md)))"
  using assms
  by (auto simp: position_query_def area_query_def parameter_unavailable_def
      split: outcome.splits)

theorem unknown_parameter_rejected_witness:
  "parameter_name (request_default\<lparr>parameter_name := Some ''nope''\<rparr>) = Some ''nope'' \<and>
   ''nope'' \<noteq> [] \<and>
   (case get_collection_metadata stub_accessor of
      Return md \<Rightarrow> ''nope'' \<notin> set (md_parameter_names md)
    | Raise e \<Rightarrow> True) \<and>
   fst (position_query stub_accessor (request_default\<lparr>parameter_name := Some ''nope''\<rparr>)) =
     HTTPError 400 (ParameterNotAvailable (Some ''nope'') [''swh'', ''perpw'']) \<and>
   fst (area_query stub_accessor (request_default\<lparr>parameter_name := Some ''nope''\<rparr>)) =
     HTTPError 400 (ParameterNotAvailable (Some ''nope'') [''swh'', ''perpw'']) \<and>
   \<not> list_ex is_data_query
       (snd (position_query stub_accessor (request_default\<lparr>parameter_name := Some ''nope''\<rparr>))) \<and>
   \<not> list_ex is_data_query
       (snd (area_query stub_accessor (request_default\<lparr>parameter_name := Some ''nope''\<rparr>)))"
proof -
  let ?rq = "request_default\<lparr>parameter_name := Some ''nope''\<rparr>"
  have h1: "parameter_name ?rq = Some ''nope''" by simp
  have h2: "''nope'' \<noteq> []" by simp
  have h3: "case get_collection_metadata stub_accessor of
      Return md \<Rightarrow> ''nope'' \<notin> set (md_parameter_names md)
    | Raise e \<Rightarrow> True"
    by (simp add: stub_accessor_def)
  have c: "parse_coordinates stub_accessor (coords ?rq) ''position'' = Return ''POINT(-60.0 45.0)''"
    "parse_coordinates stub_accessor (coords ?rq) ''area'' = Return ''POINT(-60.0 45.0)''"
    "parse_datetime stub_accessor (datetime ?rq) = Return None"
    "collection_id ?rq = ''wave_data''"
    by (simp_all add: stub_accessor_def request_default_def)
  from unknown_parameter_rejected [OF h1 h2 h3] h1 h2 h3 stub_metadata c show ?thesis
    by simp
qed

theorem unknown_parameter_counterexample:
  "parameter_name (request_default\<lparr>collection_id := ''other'', parameter_name := Some ''nope''\<rparr>)
     = Some ''nope'' \<and>
   get_collection_metadata stub_accessor =
     Return \<lparr> md_id = ''wave_data'', md_parameter_names = [''swh'', ''perpw''] \<rparr> \<and>
   ''nope'' \<notin> set [''swh'', ''perpw''] \<and>
   fst (position_query stub_accessor
          (request_default\<lparr>collection_id := ''other'', parameter_name := Some ''nope''\<rparr>)) =
     HTTPError 404 (CollectionNotFound ''other'') \<and>
   '''' \<notin> set [''swh'', ''perpw''] \<and>
   position_query stub_accessor (request_default\<lparr>parameter_name := Some ''''\<rparr>) =
     (JSONResponse ''position features'',
      [GetCollectionMetadata, ParseCoordinates ''POINT(-60.0 45.0)'' ''position'',
       ParseDatetime None, QueryPosition ''POINT(-60.0 45.0)'' None (Some '''')])"
  by (simp add: position_query_def stub_accessor_def request_default_def
      parameter_unavailable_def format_result_def upper_def upper_char_def)

text \<open>
  Claim C4, as the handlers implement it. When the coordinate text or the datetime text of a
  position or area request fails to parse (the parser raises), the handler fails and never
  calls \<open>query_position\<close> or \<open>query_area\<close>: no result is produced. When the collection
  id is the served one, the failure is an HTTP 400: "Invalid coordinates" when
  \<open>parse_coordinates\<close> raises \<open>ValueError\<close>, "Invalid datetime" when the coordinates
  parse and \<open>parse_datetime\<close> raises. (A wrong collection id is reported first, as 404.)
\<close>

theorem parse_failure_blocks_data_access:
  "((\<exists>e. parse_coordinates acc (coords rq) ''position'' = Raise e) \<or>
    (\<exists>e. parse_datetime acc (datetime rq) = Raise e) \<longrightarrow>
      is_error (fst (position_query acc rq)) \<and>
      \<not> list_ex is_data_query (snd (position_query acc rq))) \<and>
   ((\<exists>e. parse_coordinates acc (coords rq) ''area'' = Raise e) \<or>
    (\<exists>e. parse_datetime acc (datetime rq) = Raise e) \<longrightarrow>
      is_error (fst (area_query acc rq)) \<and>
      \<not> list_ex is_data_query (snd (area_query acc rq))) \<and>
   (\<forall>md. get_collection_metadata acc = Return md \<and> collection_id rq = md_id md \<longrightarrow>
      (\<forall>m. parse_coordinates acc (coords rq) ''position'' = Raise (ValueError m) \<longrightarrow>
         fst (position_query acc rq) = HTTPError 400 (InvalidCoordinates (ValueError m))) \<and>
      (\<forall>c e. parse_coordinates acc (coords rq) ''position'' = Return c \<and>
             parse_datetime acc (datetime rq) = Raise e \<longrightarrow>
         fst (position_query acc rq) = HTTPError 400 (InvalidDatetime e)) \<and>
      (\<forall>m. parse_coordinates acc (coords rq) ''area'' = Raise (ValueError m) \<longrightarrow>
         fst (area_query acc rq) = HTTPError 400 (InvalidCoordinates (ValueError m))) \<and>
      (\<forall>c e. parse_coordinates acc (coords rq) ''area'' = Return c \<and>
             parse_datetime acc (datetime rq) = Raise e \<longrightarrow>
         fst (area_query acc rq) = HTTPError 400 (InvalidDatetime e)))"
  by (auto simp: position_query_def area_query_def split: outcome.splits)

theorem parse_failure_blocks_data_access_witness:
  "parse_coordinates stub_accessor (coords (request_default\<lparr>coords := ''garbage''\<rparr>)) ''position''
     = Raise (ValueError ''unsupported coordinate text'') \<and>
   parse_coordinates stub_accessor (coords (request_default\<lparr>coords := ''garbage''\<rparr>)) ''area''
     = Raise (ValueError ''unsupported coordinate text'') \<and>
   collection_id (request_default\<lparr>coords := ''garbage''\<rparr>) = ''wave_data'' \<and>
   position_query stub_accessor (request_default\<lparr>coords := ''garbage''\<rparr>) =
     (HTTPError 400 (InvalidCoordinates (ValueError ''unsupported coordinate text'')),
      [GetCollectionMetadata, ParseCoordinates ''garbage'' ''position'']) \<and>
   area_query stub_accessor (request_default\<lparr>coords := ''garbage''\<rparr>) =
     (HTTPError 400 (InvalidCoordinates (ValueError ''unsupported coordinate text'')),
      [GetCollectionMetadata, ParseCoordinates ''garbage'' ''area'']) \<and>
   parse_datetime stub_accessor (datetime (request_default\<lparr>datetime := Some ''yesterday''\<rparr>))
     = Raise (OtherException ''unknown datetime text'') \<and>
   position_query stub_accessor (request_default\<lparr>datetime := Some ''yesterday''\<rparr>) =
     (HTTPError 400 (InvalidDatetime (OtherException ''unknown datetime text'')),
      [GetCollectionMetadata, ParseCoordinates ''POINT(-60.0 45.0)'' ''position'',
       ParseDatetime (Some ''yesterday'')])"
  using parse_failure_blocks_data_access [of stub_accessor "request_default\<lparr>coords := ''garbage''\<rparr>"]
    parse_failure_blocks_data_access
      [of stub_accessor "request_default\<lparr>datetime := Some ''yesterday''\<rparr>"]
  by (simp add: position_query_def area_query_def stub_accessor_def request_default_def)

theorem parse_failure_counterexample:
  "parse_coordinates stub_accessor
     (coords (request_default\<lparr>collection_id := ''other'', coords := ''garbage''\<rparr>)) ''position''
     = Raise (ValueError ''unsupported coordinate text'') \<and>
   position_query stub_accessor (request_default\<lparr>collection_id := ''other'', coords := ''garbage''\<rparr>)
     = (HTTPError 404 (CollectionNotFound ''other''), [GetCollectionMetadata]) \<and>
   parse_coordinates stub_accessor (coords (request_default\<lparr>coords := []\<rparr>)) ''position''
     = Raise (OtherException ''index out of range'') \<and>
   position_query stub_accessor (request_default\<lparr>coords := []\<rparr>)
     = (HTTPError 500 QueryExecutionFailed,
        [GetCollectionMetadata, ParseCoordinates [] ''position''])"
  by (simp add: position_query_def stub_accessor_def request_default_def)





section \<open>Properties of the dataset discovery\<close>

lemma set_sort_reverse [simp]: "set (sort_reverse key xs) = set xs"
  by (simp add: sort_reverse_def)

lemma sorted_sort_reverse: "sorted (rev (map key (sort_reverse key xs)))"
  by (simp add: sort_reverse_def rev_map [symmetric])

lemma sort_reverse_Cons_max:
  assumes "sort_reverse key xs = y # ys" and "x \<in> set xs"
  shows "key x \<le> key y"
proof -
  have "sorted (rev (map key (y # ys)))"
    using sorted_sort_reverse [of key xs] assms(1) by simp
  moreover have "x \<in> set (y # ys)"
    using assms set_sort_reverse [of key xs] by simp
  ultimately show ?thesis
    by (auto simp: sorted_append)
qed

lemma set_get_available_datasets:
  "set (get_available_datasets data_dir) = {d. \<exists>z \<in> set data_dir. discover z = Some d}"
proof -
  have "set (List.map_filter discover zs) = {d. \<exists>z \<in> set zs. discover z = Some d}" for zs
    by (induction zs) (auto simp: List.map_filter_simps split: option.splits)
  then show ?thesis
    by (simp add: get_available_datasets_def)
qed

lemma available_empty_iff:
  "get_available_datasets data_dir = [] \<longleftrightarrow> (\<forall>z \<in> set data_dir. \<forall>i. sidecar z \<noteq> Loaded i)"
proof -
  have "get_available_datasets data_dir = [] \<longleftrightarrow> set (get_available_datasets data_dir) = {}"
    by simp
  also have "\<dots> \<longleftrightarrow> (\<forall>z \<in> set data_dir. discover z = None)"
    unfolding set_get_available_datasets
    by (auto simp: not_Some_eq [symmetric] simp del: not_Some_eq)
  also have "\<dots> \<longleftrightarrow> (\<forall>z \<in> set data_dir. \<forall>i. sidecar z \<noteq> Loaded i)"
    by (auto simp: discover_def split: sidecar.splits)
  finally show ?thesis .
qed

lemma find_sorted_desc_max:
  assumes "sorted (rev (map key xs))" and "find P xs = Some d" and "x \<in> set xs" and "P x"
  shows "key x \<le> key d"
proof -
  from assms(2) obtain i where i: "i < length xs" "xs ! i = d" "\<forall>j<i. \<not> P (xs ! j)"
    by (auto simp: find_Some_iff)
  from assms(3) obtain k where k: "k < length xs" "xs ! k = x"
    by (auto simp: in_set_conv_nth)
  with i assms(4) have "i \<le> k" by (meson not_le_imp_less)
  have "sorted_wrt (\<lambda>a b. key b \<le> key a) xs"
    using assms(1) by (simp add: sorted_wrt_rev sorted_wrt_map flip: rev_map)
  then show ?thesis
    using \<open>i \<le> k\<close> i k by (cases "i = k") (auto simp: sorted_wrt_iff_nth_less)
qed

lemma example_available:
  "get_available_datasets example_data_dir =
     [\<lparr> ds_id = ''wave_data'', ds_path = ''wave_data.zarr'',
        ds_metadata_path = ''wave_data_edr_metadata.json'', ds_modified = 200 \<rparr>,
      \<lparr> ds_id = ''gfs_wave_20240625'', ds_path = ''gfs_wave_20240625.zarr'',
        ds_metadata_path = ''gfs_wave_20240625_edr_metadata.json'', ds_modified = 100 \<rparr>]"
  by (simp add: get_available_datasets_def example_data_dir_def sort_reverse_def
      List.map_filter_simps discover_def)

text \<open>
  Claim C8, as \<open>get_active_dataset\<close> implements it. The result is \<open>None\<close> exactly when no
  \<open>*.zarr\<close> store of the data directory has a sidecar that exists and loads (a sidecar that
  exists but cannot be read is skipped). Otherwise, when \<open>active_collection\<close> is set to a
  non-empty value other than \<open>latest\<close> that is the id of a discovered dataset, the result
  is a discovered dataset with that id, the most recently modified one of them; in every
  other case the result is a discovered dataset with the greatest modification time.
\<close>

theorem active_dataset_selection:
  "(get_active_dataset cfg data_dir = None \<longleftrightarrow>
      (\<forall>z \<in> set data_dir. \<forall>i. sidecar z \<noteq> Loaded i)) \<and>
   (\<forall>c. active_collection cfg = Some c \<and> c \<noteq> [] \<and> c \<noteq> ''latest'' \<and>
         (\<exists>d \<in> set (get_available_datasets data_dir). ds_id d = c) \<longrightarrow>
      (\<exists>d. get_active_dataset cfg data_dir = Some d \<and>
           d \<in> set (get_available_datasets data_dir) \<and> ds_id d = c \<and>
           (\<forall>d' \<in> set (get_available_datasets data_dir).
              ds_id d' = c \<longrightarrow> ds_modified d' \<le> ds_modified d))) \<and>
   (get_available_datasets data_dir \<noteq> [] \<and>
    \<not> (\<exists>c. active_collection cfg = Some c \<and> c \<noteq> [] \<and> c \<noteq> ''latest'' \<and>
         (\<exists>d \<in> set (get_available_datasets data_dir). ds_id d = c)) \<longrightarrow>
      (\<exists>d. get_active_dataset cfg data_dir = Some d \<and>
           d \<in> set (get_available_datasets data_dir) \<and>
           (\<forall>d' \<in> set (get_available_datasets data_dir).
              ds_modified d' \<le> ds_modified d)))"
proof (intro conjI allI impI)
  show "get_active_dataset cfg data_dir = None \<longleftrightarrow>
            (\<forall>z \<in> set data_dir. \<forall>i. sidecar z \<noteq> Loaded i)"
    unfolding available_empty_iff [symmetric]
    by (auto simp: get_active_dataset_def split: list.splits option.splits)
next
  fix c
  assume a: "active_collection cfg = Some c \<and> c \<noteq> [] \<and> c \<noteq> ''latest'' \<and>
               (\<exists>d \<in> set (get_available_datasets data_dir). ds_id d = c)"
  let ?ds = "get_available_datasets data_dir"
  from a obtain d0 where d0: "d0 \<in> set ?ds" "ds_id d0 = c" by auto
  then have ne: "?ds \<noteq> []" by auto
  from d0 obtain d where d: "find (\<lambda>d. Some (ds_id d) = active_collection cfg) ?ds = Some d"
    using a by (cases "find (\<lambda>d. Some (ds_id d) = active_collection cfg) ?ds")
      (auto simp: find_None_iff)
  have res: "get_active_dataset cfg data_dir = Some d"
    using a d ne by (auto simp: get_active_dataset_def split: list.splits)
  have mem: "d \<in> set ?ds" "ds_id d = c"
    using d a by (auto simp: find_Some_iff)
  have srt: "sorted (rev (map ds_modified ?ds))"
    unfolding get_available_datasets_def by (rule sorted_sort_reverse)
  have "\<forall>d' \<in> set ?ds. ds_id d' = c \<longrightarrow> ds_modified d' \<le> ds_modified d"
    using find_sorted_desc_max [OF srt d] a by auto
  with res mem show "\<exists>d. get_active_dataset cfg data_dir = Some d \<and>
                 d \<in> set (get_available_datasets data_dir) \<and> ds_id d = c \<and>
                 (\<forall>d' \<in> set (get_available_datasets data_dir).
                    ds_id d' = c \<longrightarrow> ds_modified d' \<le> ds_modified d)"
    by blast
next
  assume a: "get_available_datasets data_dir \<noteq> [] \<and>
          \<not> (\<exists>c. active_collection cfg = Some c \<and> c \<noteq> [] \<and> c \<noteq> ''latest'' \<and>
               (\<exists>d \<in> set (get_available_datasets data_dir). ds_id d = c))"
  let ?ds = "get_available_datasets data_dir"
  from a obtain latest rest where lr: "?ds = latest # rest"
    by (cases ?ds) auto
  have nf: "truthy (active_collection cfg) \<and> active_collection cfg \<noteq> Some ''latest'' \<Longrightarrow>
      find (\<lambda>d. Some (ds_id d) = active_collection cfg) ?ds = None"
    using a by (cases "active_collection cfg") (auto simp: find_None_iff)
  have res: "get_active_dataset cfg data_dir = Some latest"
    using lr nf by (auto simp: get_active_dataset_def split: option.splits)
  have "\<forall>d' \<in> set ?ds. ds_modified d' \<le> ds_modified latest"
  proof
    fix d' assume "d' \<in> set ?ds"
    then have "d' \<in> set (List.map_filter discover data_dir)"
      by (simp add: get_available_datasets_def)
    then show "ds_modified d' \<le> ds_modified latest"
      using lr sort_reverse_Cons_max [of ds_modified "List.map_filter discover data_dir" latest rest d']
      by (simp add: get_available_datasets_def)
  qed
  with res lr show "\<exists>d. get_active_dataset cfg data_dir = Some d \<and>
                 d \<in> set (get_available_datasets data_dir) \<and>
                 (\<forall>d' \<in> set (get_available_datasets data_dir).
                    ds_modified d' \<le> ds_modified d)"
    by auto
qed

theorem active_dataset_selection_witness:
  "(\<exists>z \<in> set example_data_dir. \<exists>i. sidecar z = Loaded i) \<and>
   get_active_dataset \<lparr> active_collection = Some ''gfs_wave_20240625'' \<rparr> example_data_dir =
     Some \<lparr> ds_id = ''gfs_wave_20240625'', ds_path = ''gfs_wave_20240625.zarr'',
            ds_metadata_path = ''gfs_wave_20240625_edr_metadata.json'', ds_modified = 100 \<rparr> \<and>
   get_active_dataset \<lparr> active_collection = None \<rparr> example_data_dir =
     Some \<lparr> ds_id = ''wave_data'', ds_path = ''wave_data.zarr'',
            ds_metadata_path = ''wave_data_edr_metadata.json'', ds_modified = 200 \<rparr> \<and>
   get_active_dataset \<lparr> active_collection = Some ''missing'' \<rparr> example_data_dir =
     Some \<lparr> ds_id = ''wave_data'', ds_path = ''wave_data.zarr'',
            ds_metadata_path = ''wave_data_edr_metadata.json'', ds_modified = 200 \<rparr> \<and>
   get_active_dataset \<lparr> active_collection = None \<rparr>
     [\<lparr> stem = ''partial'', sidecar = NoSidecar, st_mtime = 300 \<rparr>] = None"
  using active_dataset_selection
      [of "\<lparr> active_collection = Some ''gfs_wave_20240625'' \<rparr>" example_data_dir]
    active_dataset_selection [of "\<lparr> active_collection = None \<rparr>" example_data_dir]
    active_dataset_selection [of "\<lparr> active_collection = Some ''missing'' \<rparr>" example_data_dir]
    active_dataset_selection [of "\<lparr> active_collection = None \<rparr>"
       "[\<lparr> stem = ''partial'', sidecar = NoSidecar, st_mtime = 300 \<rparr>]"]
  by (simp add: get_active_dataset_def example_available)

theorem active_dataset_selection_counterexample:
  "sidecar \<lparr> stem = ''wave_data'', sidecar = Unreadable, st_mtime = 200 \<rparr> \<noteq> NoSidecar \<and>
   get_active_dataset \<lparr> active_collection = None \<rparr>
     [\<lparr> stem = ''wave_data'', sidecar = Unreadable, st_mtime = 200 \<rparr>] = None \<and>
   get_available_datasets
     [\<lparr> stem = ''a'', sidecar = Loaded (Some ''''), st_mtime = 100 \<rparr>,
      \<lparr> stem = ''b'', sidecar = Loaded None, st_mtime = 200 \<rparr>] =
     [\<lparr> ds_id = ''b'', ds_path = ''b.zarr'', ds_metadata_path = ''b_edr_metadata.json'',
        ds_modified = 200 \<rparr>,
      \<lparr> ds_id = '''', ds_path = ''a.zarr'', ds_metadata_path = ''a_edr_metadata.json'',
        ds_modified = 100 \<rparr>] \<and>
   get_active_dataset \<lparr> active_collection = Some '''' \<rparr>
     [\<lparr> stem = ''a'', sidecar = Loaded (Some ''''), st_mtime = 100 \<rparr>,
      \<lparr> stem = ''b'', sidecar = Loaded None, st_mtime = 200 \<rparr>] =
     Some \<lparr> ds_id = ''b'', ds_path = ''b.zarr'', ds_metadata_path = ''b_edr_metadata.json'',
            ds_modified = 200 \<rparr>"
  by (simp add: get_active_dataset_def get_available_datasets_def sort_reverse_def
      List.map_filter_simps discover_def)


section \<open>Properties of the conversion pipeline\<close>










section \<open>Properties of the query core\<close>

lemma partition_point_spec:
  assumes "lo \<le> hi"
    and "\<And>j k. lo \<le> j \<Longrightarrow> j \<le> k \<Longrightarrow> k < hi \<Longrightarrow> precedes k \<Longrightarrow> precedes j"
  shows "lo \<le> partition_point precedes lo hi \<and> partition_point precedes lo hi \<le> hi \<and>
         (\<forall>k. lo \<le> k \<and> k < partition_point precedes lo hi \<longrightarrow> precedes k) \<and>
         (\<forall>k. partition_point precedes lo hi \<le> k \<and> k < hi \<longrightarrow> \<not> precedes k)"
  using assms
proof (induction precedes lo hi rule: partition_point.induct)
  case (1 precedes lo hi)
  show ?case
  proof (cases "lo < hi")
    case False
    with "1.prems" show ?thesis
      by (auto simp: partition_point.simps)
  next
    case True
    define mid where "mid = (lo + hi) div 2"
    have m: "lo \<le> mid" "mid < hi" using True by (auto simp: mid_def)
    show ?thesis
    proof (cases "precedes mid")
      case bm: True
      have eq: "partition_point precedes lo hi = partition_point precedes (mid + 1) hi"
        using True bm by (subst partition_point.simps) (simp add: mid_def Let_def)
      have ih: "mid + 1 \<le> partition_point precedes (mid + 1) hi \<and>
          partition_point precedes (mid + 1) hi \<le> hi \<and>
          (\<forall>k. mid + 1 \<le> k \<and> k < partition_point precedes (mid + 1) hi \<longrightarrow> precedes k) \<and>
          (\<forall>k. partition_point precedes (mid + 1) hi \<le> k \<and> k < hi \<longrightarrow> \<not> precedes k)"
        using "1.IH"(1) [OF True mid_def bm] m "1.prems"(2) by auto
      have low: "precedes k" if "lo \<le> k" "k \<le> mid" for k
        using "1.prems"(2) [of k mid] that m bm by auto
      show ?thesis
        unfolding eq using ih m low
        by (metis Suc_eq_plus1 Suc_leI le_trans less_imp_le_nat not_less_eq_eq
            order.strict_trans1 linorder_not_le)
    next
      case nb: False
      have eq: "partition_point precedes lo hi = partition_point precedes lo mid"
        using True nb by (subst partition_point.simps) (simp add: mid_def Let_def)
      have ih: "lo \<le> partition_point precedes lo mid \<and>
          partition_point precedes lo mid \<le> mid \<and>
          (\<forall>k. lo \<le> k \<and> k < partition_point precedes lo mid \<longrightarrow> precedes k) \<and>
          (\<forall>k. partition_point precedes lo mid \<le> k \<and> k < mid \<longrightarrow> \<not> precedes k)"
        using "1.IH"(2) [OF True mid_def nb] m "1.prems"(2) by auto
      have high: "\<not> precedes k" if "mid \<le> k" "k < hi" for k
        using "1.prems"(2) [of mid k] that m nb by auto
      show ?thesis
        unfolding eq using ih m high
        by (metis le_trans less_imp_le_nat linorder_not_le)
    qed
  qed
qed

text \<open>
  The choice between the two neighbours of the target: left of the partition point the
  distance falls with the index, from it on the distance grows.
\<close>

lemma nearest_choice:
  fixes d :: "nat \<Rightarrow> 'a::linorder"
  assumes rn: "r < n"
    and left: "\<And>j k. j < k \<Longrightarrow> k < r \<Longrightarrow> d k < d j"
    and right: "\<And>j k. r \<le> j \<Longrightarrow> j < k \<Longrightarrow> k < n \<Longrightarrow> d j < d k"
    and i: "i = (if r = 0 then 0 else if d (r - 1) \<le> d r then r - 1 else r)"
  shows "i < n \<and> (\<forall>j<n. d i \<le> d j) \<and> (\<forall>j<n. d j = d i \<longrightarrow> i \<le> j)"
proof (cases "r = 0")
  case True
  then have "i = 0" using i by simp
  moreover have "d 0 \<le> d j" if "j < n" for j
    using right [of 0 j] that True by (cases "j = 0") (auto simp: less_imp_le)
  ultimately show ?thesis using rn by auto
next
  case False
  have below: "d (r - 1) < d j" if "j < r - 1" for j
    using left [of j "r - 1"] that False by simp
  have above: "d r < d j" if "r < j" "j < n" for j
    using right [of r j] that by simp
  show ?thesis
  proof (cases "d (r - 1) \<le> d r")
    case True
    then have ieq: "i = r - 1" using i False by simp
    have "d (r - 1) \<le> d j" if "j < n" for j
    proof -
      consider "j < r - 1" | "j = r - 1" | "j = r" | "r < j" using False by linarith
      then show ?thesis
        using below [of j] above [of j] True that by cases (auto simp: less_imp_le)
    qed
    moreover have "r - 1 \<le> j" if "d j = d (r - 1)" for j
      using below [of j] that by (cases "j < r - 1") auto
    ultimately show ?thesis using rn ieq by auto
  next
    case nle: False
    then have ieq: "i = r" using i False by simp
    have "d r \<le> d j" if "j < n" for j
    proof -
      consider "j < r - 1" | "j = r - 1" | "j = r" | "r < j" using False by linarith
      then show ?thesis
        using below [of j] above [of j] nle that by cases (auto simp: less_imp_le)
    qed
    moreover have "r \<le> j" if "d j = d r" for j
    proof (rule ccontr)
      assume "\<not> r \<le> j"
      then consider "j < r - 1" | "j = r - 1" by linarith
      then show False
        using below [of j] nle that by cases auto
    qed
    ultimately show ?thesis using rn ieq by auto
  qed
qed

lemma nearest_index_ascending:
  fixes axis :: "'a::linordered_idom list"
  assumes asc: "sorted_wrt (<) axis" and ne: "axis \<noteq> []"
    and lo: "hd axis \<le> target" and hi: "target \<le> last axis"
  shows "\<exists>i. nearest_index axis target = Inr i \<and> i < length axis \<and>
           (\<forall>j<length axis. \<bar>axis ! i - target\<bar> \<le> \<bar>axis ! j - target\<bar>) \<and>
           (\<forall>j<length axis. \<bar>axis ! j - target\<bar> = \<bar>axis ! i - target\<bar> \<longrightarrow> i \<le> j)"
proof -
  let ?n = "length axis"
  let ?P = "\<lambda>k. axis ! k < target"
  let ?d = "\<lambda>k. \<bar>axis ! k - target\<bar>"
  define r where "r = partition_point ?P 0 ?n"
  have n0: "0 < ?n" using ne by simp
  have mono: "axis ! j < axis ! k" if "j < k" "k < ?n" for j k
    using asc that by (simp add: sorted_wrt_iff_nth_less)
  have hl: "hd axis = axis ! 0" "last axis = axis ! (?n - 1)"
    using ne by (simp_all add: hd_conv_nth last_conv_nth)
  have flag: "hd axis \<le> last axis"
    using lo hi by simp
  have closed: "?P j" if "0 \<le> j" "j \<le> k" "k < ?n" "?P k" for j k
    using mono [of j k] that by (cases "j = k") auto
  have spec: "r \<le> ?n \<and> (\<forall>k. 0 \<le> k \<and> k < r \<longrightarrow> ?P k) \<and> (\<forall>k. r \<le> k \<and> k < ?n \<longrightarrow> \<not> ?P k)"
    unfolding r_def using partition_point_spec [of 0 ?n ?P] closed by blast
  have rn: "r < ?n"
  proof (rule ccontr)
    assume "\<not> r < ?n"
    then have "?n - 1 < r" using n0 spec by linarith
    then have "axis ! (?n - 1) < target" using spec by simp
    with hi hl show False by simp
  qed
  have left: "?d k < ?d j" if "j < k" "k < r" for j k
  proof -
    have "axis ! j < axis ! k" "axis ! k < target"
      using mono [of j k] that rn spec by auto
    then show ?thesis by simp
  qed
  have right: "?d j < ?d k" if "r \<le> j" "j < k" "k < ?n" for j k
  proof -
    have "axis ! j < axis ! k" "target \<le> axis ! j"
      using mono [of j k] that spec by (auto simp: not_less)
    then show ?thesis by simp
  qed
  define i where "i = (if r = 0 then 0 else if ?d (r - 1) \<le> ?d r then r - 1 else r)"
  have res: "nearest_index axis target = Inr i"
    using ne lo hi flag rn
    by (simp add: nearest_index_def axis_covers_def Let_def r_def [symmetric] i_def
        min_def max_def)
  from nearest_choice [of r ?n ?d i, OF rn left right i_def] res show ?thesis
    by blast
qed

lemma nearest_index_descending:
  fixes axis :: "'a::linordered_idom list"
  assumes desc: "sorted_wrt (>) axis" and ne: "axis \<noteq> []" and strict: "last axis < hd axis"
    and lo: "last axis \<le> target" and hi: "target \<le> hd axis"
  shows "\<exists>i. nearest_index axis target = Inr i \<and> i < length axis \<and>
           (\<forall>j<length axis. \<bar>axis ! i - target\<bar> \<le> \<bar>axis ! j - target\<bar>) \<and>
           (\<forall>j<length axis. \<bar>axis ! j - target\<bar> = \<bar>axis ! i - target\<bar> \<longrightarrow> i \<le> j)"
proof -
  let ?n = "length axis"
  let ?P = "\<lambda>k. target < axis ! k"
  let ?d = "\<lambda>k. \<bar>axis ! k - target\<bar>"
  define r where "r = partition_point ?P 0 ?n"
  have n0: "0 < ?n" using ne by simp
  have mono: "axis ! k < axis ! j" if "j < k" "k < ?n" for j k
    using desc that by (simp add: sorted_wrt_iff_nth_less)
  have hl: "hd axis = axis ! 0" "last axis = axis ! (?n - 1)"
    using ne by (simp_all add: hd_conv_nth last_conv_nth)
  have closed: "?P j" if "0 \<le> j" "j \<le> k" "k < ?n" "?P k" for j k
    using mono [of j k] that by (cases "j = k") auto
  have spec: "r \<le> ?n \<and> (\<forall>k. 0 \<le> k \<and> k < r \<longrightarrow> ?P k) \<and> (\<forall>k. r \<le> k \<and> k < ?n \<longrightarrow> \<not> ?P k)"
    unfolding r_def using partition_point_spec [of 0 ?n ?P] closed by blast
  have rn: "r < ?n"
  proof (rule ccontr)
    assume "\<not> r < ?n"
    then have "?n - 1 < r" using n0 spec by linarith
    then have "target < axis ! (?n - 1)" using spec by simp
    with lo hl show False by simp
  qed
  have left: "?d k < ?d j" if "j < k" "k < r" for j k
  proof -
    have "axis ! k < axis ! j" "target < axis ! k"
      using mono [of j k] that rn spec by auto
    then show ?thesis by simp
  qed
  have right: "?d j < ?d k" if "r \<le> j" "j < k" "k < ?n" for j k
  proof -
    have "axis ! k < axis ! j" "axis ! j \<le> target"
      using mono [of j k] that spec by (auto simp: not_less)
    then show ?thesis by simp
  qed
  define i where "i = (if r = 0 then 0 else if ?d (r - 1) \<le> ?d r then r - 1 else r)"
  have res: "nearest_index axis target = Inr i"
    using ne lo hi strict rn
    by (simp add: nearest_index_def axis_covers_def Let_def r_def [symmetric] i_def
        min_def max_def not_le)
  from nearest_choice [of r ?n ?d i, OF rn left right i_def] res show ?thesis
    by blast
qed

lemma Min_Max_ascending:
  fixes axis :: "'a::linorder list"
  assumes "sorted_wrt (<) axis" "axis \<noteq> []"
  shows "Min (set axis) = hd axis" "Max (set axis) = last axis"
proof -
  have s: "sorted axis" using assms(1) by (simp add: strict_sorted_iff)
  obtain x xs where x: "axis = x # xs" using assms(2) by (cases axis) auto
  show "Min (set axis) = hd axis"
    using s x by (auto intro!: Min_eqI)
  obtain ys y where y: "axis = ys @ [y]" using assms(2) by (cases axis rule: rev_cases) auto
  show "Max (set axis) = last axis"
    using s y by (auto intro!: Max_eqI simp: sorted_append)
qed

lemma Min_Max_descending:
  fixes axis :: "'a::linorder list"
  assumes "sorted_wrt (>) axis" "axis \<noteq> []"
  shows "Min (set axis) = last axis" "Max (set axis) = hd axis"
proof -
  have "sorted_wrt (<) (rev axis)" using assms(1) by (simp add: sorted_wrt_rev)
  from Min_Max_ascending [OF this] assms(2)
  show "Min (set axis) = last axis" "Max (set axis) = hd axis"
    by (simp_all add: hd_rev last_rev)
qed

text \<open>
  Claim C1. On a strictly monotonic axis (ascending or descending) and for a target within
  the range of the axis, nearest-index resolution returns an index of the axis whose value has
  minimal absolute distance to the target, and every index with the same distance is at
  least as large: on an exact midpoint the lower of the two indices is returned.
\<close>

theorem nearest_index_minimal:
  fixes axis :: "'a::linordered_idom list"
  assumes "sorted_wrt (<) axis \<or> sorted_wrt (>) axis"
    and "axis \<noteq> []" and "Min (set axis) \<le> target" and "target \<le> Max (set axis)"
  shows "\<exists>i. nearest_index axis target = Inr i \<and> i < length axis \<and>
           (\<forall>j<length axis. \<bar>axis ! i - target\<bar> \<le> \<bar>axis ! j - target\<bar>) \<and>
           (\<forall>j<length axis. \<bar>axis ! j - target\<bar> = \<bar>axis ! i - target\<bar> \<longrightarrow> i \<le> j)"
proof (cases "sorted_wrt (<) axis")
  case True
  with assms Min_Max_ascending [OF True] show ?thesis
    by (intro nearest_index_ascending) simp_all
next
  case False
  then have desc: "sorted_wrt (>) axis" using assms(1) by simp
  have "last axis < hd axis"
  proof (cases axis rule: rev_cases)
    case Nil
    with assms(2) show ?thesis by simp
  next
    case (snoc ys y)
    with False have "ys \<noteq> []" by auto
    then obtain x xs where "ys = x # xs" by (cases ys) auto
    with snoc desc show ?thesis by (auto simp: sorted_wrt_append)
  qed
  with assms desc Min_Max_descending [OF desc] show ?thesis
    by (intro nearest_index_descending) simp_all
qed

lemma example_nearest:
  "nearest_index [10, 20, 30, 40 :: real] 25 = Inr 1"
  "nearest_index [40, 30, 20, 10 :: real] 25 = Inr 1"
  "nearest_index [10, 20, 30, 40 :: real] 26 = Inr 2"
  by code_simp+

theorem nearest_index_minimal_witness:
  "(sorted_wrt (<) [10, 20, 30, 40 :: real] \<or> sorted_wrt (>) [10, 20, 30, 40 :: real]) \<and>
   [10, 20, 30, 40 :: real] \<noteq> [] \<and>
   Min (set [10, 20, 30, 40 :: real]) \<le> 25 \<and> 25 \<le> Max (set [10, 20, 30, 40 :: real]) \<and>
   nearest_index [10, 20, 30, 40 :: real] 25 = Inr 1 \<and>
   \<bar>[10, 20, 30, 40 :: real] ! 1 - 25\<bar> = \<bar>[10, 20, 30, 40 :: real] ! 2 - 25\<bar> \<and>
   (sorted_wrt (<) [40, 30, 20, 10 :: real] \<or> sorted_wrt (>) [40, 30, 20, 10 :: real]) \<and>
   Min (set [40, 30, 20, 10 :: real]) \<le> 25 \<and> 25 \<le> Max (set [40, 30, 20, 10 :: real]) \<and>
   nearest_index [40, 30, 20, 10 :: real] 25 = Inr 1"
  using nearest_index_minimal [of "[10, 20, 30, 40 :: real]" 25]
    nearest_index_minimal [of "[40, 30, 20, 10 :: real]" 25]
  by (simp add: example_nearest)



lemma example_fields:
  "store_fields example_store =
     [\<lparr> field_name = ''swh'', fill_value = Some NaN \<rparr>,
      \<lparr> field_name = ''perpw'', fill_value = Some (Finite (- 9999)) \<rparr>]"
  by (simp add: example_store_def declared_fields_def optimize_zarr_encoding_def)










end
